theory Spec2Isabelle
  imports Complex_Main
begin

section \<open>Python values\<close>

text \<open>
  A Python \<^verbatim>\<open>str\<close> is represented by the bytes of its UTF-8 encoding, as a HOL
  \<^typ>\<open>string\<close>. Every literal the program compares against is ASCII, and an ASCII
  byte never occurs inside a multi-byte UTF-8 sequence, so \<^verbatim>\<open>split('.')\<close>,
  \<^verbatim>\<open>startswith\<close>, \<^verbatim>\<open>in\<close> and \<^verbatim>\<open>replace\<close> on such literals act on the
  bytes as they act on the code points. \<^verbatim>\<open>bytes\<close> is a \<^typ>\<open>string\<close> as well.
\<close>

subsection \<open>Exceptions\<close>

text \<open>
  The exceptions the program raises itself or receives from a library. All of them are
  subclasses of \<^verbatim>\<open>Exception\<close>, which is what every handler of the program catches;
  \<^verbatim>\<open>OtherError\<close> stands for any class not named here. The string is the message.
\<close>

datatype exn =
  ValueError string
  | ConnectionError string
  | KeyError string
  | OtherError string

text \<open>\<^verbatim>\<open>str(e)\<close>, as the f-strings of the handlers format it.\<close>

fun exc_str :: "exn \<Rightarrow> string" where
  "exc_str (ValueError m) = m"
| "exc_str (ConnectionError m) = m"
| "exc_str (KeyError k) = [CHR 0x27] @ k @ [CHR 0x27]"
| "exc_str (OtherError m) = m"

text \<open>A computation that returns or raises; \<open>Inl\<close> is the raise.\<close>

definition and_then :: "exn + 'a \<Rightarrow> ('a \<Rightarrow> exn + 'b) \<Rightarrow> exn + 'b" where
  "and_then r f = (case r of Inl e \<Rightarrow> Inl e | Inr v \<Rightarrow> f v)"

subsection \<open>String operations\<close>

text \<open>\<^verbatim>\<open>s.startswith(p)\<close>\<close>

definition startswith :: "string \<Rightarrow> string \<Rightarrow> bool" where
  "startswith s p = (take (length p) s = p)"

text \<open>\<^verbatim>\<open>sub in s\<close>\<close>

fun str_contains :: "string \<Rightarrow> string \<Rightarrow> bool" where
  "str_contains [] sub = (sub = [])"
| "str_contains (c # cs) sub = (startswith (c # cs) sub \<or> str_contains cs sub)"

text \<open>
  \<^verbatim>\<open>s.split(c)\<close> for a one-character separator: the pieces between the separators,
  at least one piece.
\<close>

fun split_on :: "char \<Rightarrow> string \<Rightarrow> string list" where
  "split_on c [] = [[]]"
| "split_on c (x # xs) =
     (let r = split_on c xs in
      if x = c then [] # r else (x # hd r) # tl r)"

text \<open>
  \<^verbatim>\<open>s.lower()\<close> on the ASCII letters. The program only compares the result with
  the words csv, xls, xlsx and json; no non-ASCII character lower-cases to one of their
  letters, so the comparison comes out as in Python.
\<close>

definition lower_char :: "char \<Rightarrow> char" where
  "lower_char c =
     (if 65 \<le> (of_char c :: nat) \<and> (of_char c :: nat) \<le> 90
      then char_of ((of_char c :: nat) + 32) else c)"

definition lower :: "string \<Rightarrow> string" where
  "lower s = map lower_char s"

text \<open>
  \<^verbatim>\<open>s.replace(old, new)\<close>: every occurrence of \<open>old\<close>, left to right and not
  overlapping; with an empty \<open>old\<close>, \<open>new\<close> goes before every character and at the end.
\<close>

function str_replace :: "string \<Rightarrow> string \<Rightarrow> string \<Rightarrow> string" where
  "str_replace old new s =
     (if old = [] then new @ concat (map (\<lambda>c. c # new) s)
      else if s = [] then []
      else if startswith s old then new @ str_replace old new (drop (length old) s)
      else hd s # str_replace old new (tl s))"
  by pat_completeness auto
termination
  by (relation "measure (\<lambda>(old, new, s). length s)") auto

text \<open>A dictionary with string keys; \<^verbatim>\<open>d[k]\<close> raises \<^verbatim>\<open>KeyError\<close> on a missing key.\<close>

definition getitem :: "(string \<rightharpoonup> string) \<Rightarrow> string \<Rightarrow> exn + string" where
  "getitem d k = (case d k of None \<Rightarrow> Inl (KeyError k) | Some v \<Rightarrow> Inr v)"

section \<open>The generative-model client (ai\_logic.py)\<close>

subsection \<open>The remote capability\<close>

text \<open>
  The \<^verbatim>\<open>google.generativeai\<close> package and the process environment are outside the
  repository: they are a parameter of the model, and every theorem holds for every value
  of it. An attribute or call that can raise has a result in \<^typ>\<open>exn + 'a\<close>.
\<close>

record model_info =
  mi_name :: string
  mi_supported_generation_methods :: "string list option"

record candidate =
  cand_text :: "exn + string"

record response =
  resp_parts :: "exn + string list"
  resp_text :: "exn + string"
  resp_candidates :: "exn + candidate list"

record turn =
  turn_role :: string
  turn_parts :: "string list"

record genai =
  getenv_api_key :: "string option"
  stdout_print :: "string \<Rightarrow> exn + unit"
  configure :: "string \<Rightarrow> exn + unit"
  list_models :: "exn + model_info list"
  generative_model :: "string \<Rightarrow> exn + unit"
  generate_content :: "string \<Rightarrow> string \<Rightarrow> rat \<Rightarrow> exn + response option"
  start_chat :: "string \<Rightarrow> turn list \<Rightarrow> exn + unit"
  send_message :: "string \<Rightarrow> turn list \<Rightarrow> string \<Rightarrow> exn + response option"

text \<open>
  \<open>getenv_api_key\<close> is \<^verbatim>\<open>os.getenv("GOOGLE_API_KEY")\<close> after \<^verbatim>\<open>load_dotenv()\<close>;
  \<open>stdout_print g s\<close> is \<^verbatim>\<open>print(s)\<close>, which raises when the standard output cannot
  encode the text or is closed;
  \<open>mi_supported_generation_methods\<close> is \<open>None\<close> when \<^verbatim>\<open>hasattr\<close> fails;
  \<open>generative_model\<close> is the constructor \<^verbatim>\<open>genai.GenerativeModel(name)\<close>;
  \<open>generate_content g name prompt temperature\<close> is the call on the model of that name;
  \<open>start_chat g name history\<close> is \<^verbatim>\<open>model.start_chat(history=...)\<close> on the model of
  that name, which builds the session and sends nothing;
  \<open>send_message g name history query\<close> is \<^verbatim>\<open>chat.send_message(query)\<close> on the session
  of that model and history. A call may return \<^verbatim>\<open>None\<close>.
\<close>

subsection \<open>\_get\_suitable\_model\<close>

definition supported_models_names :: "model_info list \<Rightarrow> string list" where
  "supported_models_names ms =
     map mi_name
       (filter (\<lambda>m. case mi_supported_generation_methods m of
                        None \<Rightarrow> False
                      | Some meths \<Rightarrow> ''generateContent'' \<in> set meths) ms)"

text \<open>The \<^verbatim>\<open>for\<close> loop of the fallback branch and the \<^verbatim>\<open>raise\<close> after it.\<close>

fun first_text_model :: "string list \<Rightarrow> exn + string" where
  "first_text_model [] =
     Inl (ValueError ''No suitable text generation model found that supports generateContent after filtering.'')"
| "first_text_model (model_name # rest) =
     (if \<not> str_contains model_name ''embedding'' \<and> \<not> str_contains model_name ''aqa''
      then Inr (str_replace ''models/'' [] model_name)
      else first_text_model rest)"

definition select_model :: "string list \<Rightarrow> exn + string" where
  "select_model names =
     (if ''models/gemini-1.5-flash-latest'' \<in> set names then Inr ''gemini-1.5-flash-latest''
      else if ''models/gemini-1.0-pro'' \<in> set names then Inr ''gemini-1.0-pro''
      else if ''models/gemini-pro'' \<in> set names then Inr ''gemini-pro''
      else if names \<noteq> [] then first_text_model names
      else Inl (ValueError ''No models found that support generateContent.''))"

definition get_suitable_model :: "genai \<Rightarrow> exn + string" where
  "get_suitable_model g =
     (case and_then (list_models g) (\<lambda>ms. select_model (supported_models_names ms)) of
        Inl e \<Rightarrow>
          Inl (ConnectionError
                (''Failed to list or select a suitable Generative AI model: '' @ exc_str e))
      | Inr model_name \<Rightarrow> Inr model_name)"

subsection \<open>\_configure\_genai\<close>

definition configure_genai :: "genai \<Rightarrow> exn + unit" where
  "configure_genai g =
     (case getenv_api_key g of
        None \<Rightarrow> Inl (ValueError ''GOOGLE_API_KEY is not set in your .env file.'')
      | Some key \<Rightarrow>
          if key = [] then Inl (ValueError ''GOOGLE_API_KEY is not set in your .env file.'')
          else configure g key)"

text \<open>
  The first three statements of the first \<^verbatim>\<open>try\<close> of both entry points: configure,
  select, construct. They yield the name of the model the later call goes to.
\<close>

definition init_model :: "genai \<Rightarrow> exn + string" where
  "init_model g =
     and_then (configure_genai g) (\<lambda>_.
     and_then (get_suitable_model g) (\<lambda>model_name.
     and_then (generative_model g model_name) (\<lambda>_. Inr model_name)))"

text \<open>
  The whole body of the first \<^verbatim>\<open>try\<close> of \<^verbatim>\<open>generate_kpi_summary\<close> and of
  \<^verbatim>\<open>chat_with_llm\<close>: the three statements above, then the debug line with the model's
  name. An exception of the \<^verbatim>\<open>print\<close> is caught like any other of the body.
\<close>

definition kpi_summary_init :: "genai \<Rightarrow> exn + string" where
  "kpi_summary_init g =
     and_then (init_model g) (\<lambda>model_name.
     and_then (stdout_print g (''DEBUG: KPI Summary - Using model: '' @ model_name))
       (\<lambda>_. Inr model_name))"

definition chatbot_init :: "genai \<Rightarrow> exn + string" where
  "chatbot_init g =
     and_then (init_model g) (\<lambda>model_name.
     and_then (stdout_print g (''DEBUG: Chatbot - Using model: '' @ model_name))
       (\<lambda>_. Inr model_name))"

subsection \<open>generate\_kpi\_summary\<close>

definition kpi_prompt :: "string \<Rightarrow> string" where
  "kpi_prompt kpi_data_markdown =
     ''\<newline>'' @
     ''    You are a Business Intelligence Analyst. Your task is to analyze the following business KPI data\<newline>'' @
     ''    and provide a concise, natural-language summary. Highlight key trends, spikes, and anomalies.\<newline>'' @
     ''    Keep the summary professional and actionable for decision-makers.\<newline>'' @
     ''\<newline>'' @
     ''    ---\<newline>'' @
     ''    KPI Data:\<newline>'' @
     ''    '' @ kpi_data_markdown @ ''\<newline>'' @
     ''    ---\<newline>'' @
     ''\<newline>'' @
     ''    Provide your summary focusing on:\<newline>'' @
     ''    - Overall performance across key metrics (e.g., Revenue, Churn, Conversion).\<newline>'' @
     ''    - Significant increases or decreases (spikes/dips).\<newline>'' @
     ''    - Emerging trends.\<newline>'' @
     ''    - Any outliers or unusual data points.\<newline>'' @
     ''    - Potential implications or areas for further investigation.\<newline>'' @
     ''\<newline>'' @
     ''    Format your output clearly with bullet points or a coherent paragraph structure.\<newline>'' @
     ''    ''"

text \<open>
  The \<^verbatim>\<open>if\<close>/\<^verbatim>\<open>elif\<close>/\<^verbatim>\<open>else\<close> over the response, inside the second \<^verbatim>\<open>try\<close>.
  \<^verbatim>\<open>response and response.parts\<close> is false for \<^verbatim>\<open>None\<close> and for an empty list of
  parts; \<^verbatim>\<open>response.candidates[0].text\<close> is false for the empty string; an attribute
  that raises ends the whole chain with that exception.
\<close>

definition summary_of_response :: "response option \<Rightarrow> exn + string" where
  "summary_of_response ro =
     (case ro of
        None \<Rightarrow>
          Inr ''AI response structure not as expected for KPI summary. Could not extract text.''
      | Some r \<Rightarrow>
          and_then (resp_parts r) (\<lambda>ps.
            if ps \<noteq> [] then resp_text r
            else and_then (resp_candidates r) (\<lambda>cs.
              case cs of
                [] \<Rightarrow>
                  Inr ''AI response structure not as expected for KPI summary. Could not extract text.''
              | c # _ \<Rightarrow>
                  and_then (cand_text c) (\<lambda>t.
                    if t \<noteq> [] then cand_text c
                    else Inr ''AI response structure not as expected for KPI summary. Could not extract text.''))))"

text \<open>
  The handler of the second \<^verbatim>\<open>try\<close> prints a debug line before it returns the error
  string. The \<^verbatim>\<open>print\<close> stands in the handler, outside every \<^verbatim>\<open>try\<close>: when it
  raises, the exception leaves the function.
\<close>

definition generate_kpi_summary :: "genai \<Rightarrow> string \<Rightarrow> exn + string" where
  "generate_kpi_summary g kpi_data_markdown =
     (case kpi_summary_init g of
        Inl e \<Rightarrow>
          Inr (''ERROR: Could not initialize Generative Model for KPI summary: '' @ exc_str e)
      | Inr model_name \<Rightarrow>
          (case and_then (generate_content g model_name (kpi_prompt kpi_data_markdown) (2 / 10))
                  summary_of_response of
             Inl e \<Rightarrow>
               and_then
                 (stdout_print g (''DEBUG: Error during LLM API call for KPI summary: '' @ exc_str e))
                 (\<lambda>_. Inr (''ERROR: An error occurred while calling the Google Generative AI API for KPI summary: ''
                           @ exc_str e))
           | Inr s \<Rightarrow> Inr s))"

subsection \<open>chat\_with\_llm\<close>

definition initial_message :: "string \<Rightarrow> turn" where
  "initial_message context_data_markdown =
     \<lparr>turn_role = ''user'',
      turn_parts =
        [''You are a helpful Business Intelligence chatbot. You are provided with business KPI data below. '' @
         ''Answer questions about this data naturally and concisely. If the question is outside the scope '' @
         ''of the provided data or general business knowledge, state that you cannot answer.\<newline>\<newline>'' @
         ''--- KPI Data Context ---\<newline>'' @ context_data_markdown @
         ''\<newline>--- End KPI Data Context ---'']\<rparr>"

text \<open>
  The loop over \<^verbatim>\<open>chat_history\<close>. It stands outside every \<^verbatim>\<open>try\<close>: a message
  without the key \<^verbatim>\<open>role\<close> or \<^verbatim>\<open>content\<close> raises \<^verbatim>\<open>KeyError\<close> to the caller.
\<close>

fun formatted_history :: "(string \<rightharpoonup> string) list \<Rightarrow> exn + turn list" where
  "formatted_history [] = Inr []"
| "formatted_history (msg # rest) =
     and_then (getitem msg ''role'') (\<lambda>r.
     and_then (getitem msg ''content'') (\<lambda>c.
     and_then (formatted_history rest) (\<lambda>ts.
       Inr (\<lparr>turn_role = (if r = ''user'' then ''user'' else ''model''), turn_parts = [c]\<rparr> # ts))))"

definition chat_reply_of_response :: "response option \<Rightarrow> exn + string" where
  "chat_reply_of_response ro =
     (case ro of
        None \<Rightarrow> Inr ''AI chatbot response structure not as expected. Could not extract text.''
      | Some r \<Rightarrow>
          and_then (resp_parts r) (\<lambda>ps.
            if ps \<noteq> [] then resp_text r
            else and_then (resp_candidates r) (\<lambda>cs.
              case cs of
                [] \<Rightarrow> Inr ''AI chatbot response structure not as expected. Could not extract text.''
              | c # _ \<Rightarrow>
                  and_then (cand_text c) (\<lambda>t.
                    if t \<noteq> [] then cand_text c
                    else Inr ''AI chatbot response structure not as expected. Could not extract text.''))))"

text \<open>
  What one \<^verbatim>\<open>chat.send_message\<close> hands to the remote model: the model's name, the
  history the session was started with and the new message.
\<close>

record chat_call =
  call_model :: string
  call_history :: "turn list"
  call_message :: string

text \<open>
  The result is what the function returns or raises, paired with the calls it made to
  the remote model's multi-turn operation, in order. The loop over the history and
  \<^verbatim>\<open>start_chat\<close> stand outside the second \<^verbatim>\<open>try\<close>: their exceptions reach the caller,
  and no call has been made then. The handler of the second \<^verbatim>\<open>try\<close> prints a debug
  line first, as in \<^verbatim>\<open>generate_kpi_summary\<close>.
\<close>

definition chat_with_llm ::
  "genai \<Rightarrow> string \<Rightarrow> string \<Rightarrow> (string \<rightharpoonup> string) list \<Rightarrow> (exn + string) \<times> chat_call list" where
  "chat_with_llm g context_data_markdown user_query chat_history =
     (case chatbot_init g of
        Inl e \<Rightarrow>
          (Inr (''ERROR: Could not initialize Generative Model for chatbot: '' @ exc_str e), [])
      | Inr model_name \<Rightarrow>
          (case formatted_history chat_history of
             Inl e \<Rightarrow> (Inl e, [])
           | Inr fh \<Rightarrow>
               (let history = [initial_message context_data_markdown] @ fh in
                case start_chat g model_name history of
                  Inl e \<Rightarrow> (Inl e, [])
                | Inr _ \<Rightarrow>
                    ((case and_then (send_message g model_name history user_query)
                             chat_reply_of_response of
                        Inl e \<Rightarrow>
                          and_then
                            (stdout_print g (''DEBUG: Error during LLM API call for chatbot: '' @ exc_str e))
                            (\<lambda>_. Inr (''ERROR: An error occurred while calling the Google Generative AI API for chatbot: ''
                                      @ exc_str e))
                      | Inr s \<Rightarrow> Inr s),
                     [\<lparr>call_model = model_name, call_history = history,
                       call_message = user_query\<rparr>]))))"

section \<open>Ingestion, digest and packaging (features.py)\<close>

subsection \<open>Tables\<close>

text \<open>
  Modelled from the spec: the \<^verbatim>\<open>DataFrame\<close> is pandas' type, not the repository's. A
  table is an ordered sequence of named columns, each of numeric, textual or temporal
  cells, with a number of rows (the length of the index); a missing cell is \<open>None\<close>.
  \<^verbatim>\<open>df.empty\<close> holds when either axis has length zero, and
  \<^verbatim>\<open>select_dtypes(include=['number'])\<close> keeps the index and the numeric columns in
  their order.
\<close>

datatype column =
  NumericCol "real option list"
  | TextualCol "string option list"
  | TemporalCol "int option list"

record table =
  nrows :: nat
  columns :: "(string \<times> column) list"

fun is_numeric :: "column \<Rightarrow> bool" where
  "is_numeric (NumericCol _) = True"
| "is_numeric (TextualCol _) = False"
| "is_numeric (TemporalCol _) = False"

fun numeric_values :: "column \<Rightarrow> real option list" where
  "numeric_values (NumericCol vs) = vs"
| "numeric_values (TextualCol _) = []"
| "numeric_values (TemporalCol _) = []"

definition table_empty :: "table \<Rightarrow> bool" where
  "table_empty df = (nrows df = 0 \<or> columns df = [])"

definition select_dtypes_number :: "table \<Rightarrow> table" where
  "select_dtypes_number df = df\<lparr>columns := filter (\<lambda>(n, c). is_numeric c) (columns df)\<rparr>"

subsection \<open>The statistics of \<^verbatim>\<open>describe()\<close>\<close>

text \<open>
  A frame of numbers with labelled rows and named columns; a cell that pandas leaves
  undefined (NaN) is \<open>None\<close>.
\<close>

record frame =
  frame_index :: "string list"
  frame_columns :: "(string \<times> real option list) list"

definition stat_names :: "string list" where
  "stat_names = [''count'', ''mean'', ''std'', ''min'', ''25%'', ''50%'', ''75%'', ''max'']"

definition non_missing :: "real option list \<Rightarrow> real list" where
  "non_missing vs = List.map_filter (\<lambda>v. v) vs"

definition stat_count :: "real list \<Rightarrow> real option" where
  "stat_count xs = Some (real (length xs))"

definition stat_mean :: "real list \<Rightarrow> real option" where
  "stat_mean xs = (if xs = [] then None else Some (sum_list xs / real (length xs)))"

definition stat_std :: "real list \<Rightarrow> real option" where
  "stat_std xs =
     (if length xs < 2 then None
      else (let m = sum_list xs / real (length xs) in
            Some (sqrt (sum_list (map (\<lambda>x. (x - m) ^ 2) xs) / real (length xs - 1)))))"

definition stat_min :: "real list \<Rightarrow> real option" where
  "stat_min xs = (if xs = [] then None else Some (fold min (tl xs) (hd xs)))"

definition stat_max :: "real list \<Rightarrow> real option" where
  "stat_max xs = (if xs = [] then None else Some (fold max (tl xs) (hd xs)))"

definition stat_quantile :: "real \<Rightarrow> real list \<Rightarrow> real option" where
  "stat_quantile q xs =
     (if xs = [] then None
      else (let s = sort xs;
                pos = q * real (length xs - 1);
                lo = nat \<lfloor>pos\<rfloor>;
                hi = min (lo + 1) (length xs - 1)
            in Some (s ! lo + (pos - real lo) * (s ! hi - s ! lo))))"

definition describe_column :: "real option list \<Rightarrow> real option list" where
  "describe_column vs =
     (let xs = non_missing vs in
      [stat_count xs, stat_mean xs, stat_std xs, stat_min xs,
       stat_quantile (1 / 4) xs, stat_quantile (1 / 2) xs, stat_quantile (3 / 4) xs,
       stat_max xs])"

text \<open>
  Modelled from the spec: \<^verbatim>\<open>DataFrame.describe\<close> is pandas' code, not the
  repository's. Per numeric column, the eight descriptive statistics over the non-missing
  values, with the sample (n - 1) standard deviation; the statistics are the rows and the
  table's columns stay the columns, in their order. The quartiles interpolate linearly
  between the two nearest order statistics, which is pandas' default. The arithmetic is
  that of the real numbers.
\<close>

definition describe :: "table \<Rightarrow> frame" where
  "describe df =
     \<lparr>frame_index = stat_names,
      frame_columns = map (\<lambda>(n, c). (n, describe_column (numeric_values c))) (columns df)\<rparr>"

text \<open>
  Modelled from the spec: \<^verbatim>\<open>DataFrame.transpose\<close>, pandas' code. Row labels become
  column names and column names become row labels, both in their order.
\<close>

definition transpose_frame :: "frame \<Rightarrow> frame" where
  "transpose_frame f =
     \<lparr>frame_index = map fst (frame_columns f),
      frame_columns =
        map (\<lambda>(i, label). (label, map (\<lambda>(n, vs). vs ! i) (frame_columns f)))
          (enumerate 0 (frame_index f))\<rparr>"

subsection \<open>The libraries behind features.py\<close>

text \<open>
  The parsers of pandas, the serializer behind \<^verbatim>\<open>to_markdown\<close>, the Markdown
  renderer and the UTF-8 decoder are outside the repository: a parameter of the model,
  each call returning or raising.
\<close>

record libs =
  decode_utf8 :: "string \<Rightarrow> exn + string"
  read_csv :: "string \<Rightarrow> exn + table"
  read_excel :: "string \<Rightarrow> exn + table"
  read_json :: "string \<Rightarrow> exn + table"
  to_markdown :: "frame \<Rightarrow> exn + string"
  markdown_render :: "string \<Rightarrow> exn + string"

text \<open>
  \<open>decode_utf8\<close> is \<^verbatim>\<open>bytes.decode('utf-8')\<close>; \<open>read_csv\<close> and \<open>read_json\<close> take the
  decoded text, \<open>read_excel\<close> the bytes; \<open>markdown_render\<close> is \<^verbatim>\<open>markdown.markdown\<close>
  with the extensions fenced\_code, tables and nl2br.
\<close>

record uploaded_file =
  file_name :: string
  file_content :: string

subsection \<open>ingest\_and\_summarize\_kpis\<close>

definition file_extension :: "string \<Rightarrow> string" where
  "file_extension name = lower (last (split_on CHR ''.'' name))"

definition no_numeric_sentinel :: string where
  "no_numeric_sentinel = ''No numerical data found for statistical summary.''"

definition unsupported_file_type :: string where
  "unsupported_file_type =
     ''Unsupported file type. Please upload a CSV, Excel (.xls, .xlsx), or JSON file.''"

text \<open>
  The statements after the parse, still inside the \<^verbatim>\<open>try\<close>: the digest of a table
  that is not empty, the error for one that is. The parsers return a frame, never
  \<^verbatim>\<open>None\<close>.
\<close>

definition summarize_table ::
  "libs \<Rightarrow> table \<Rightarrow> exn + (table option \<times> string option \<times> string option)" where
  "summarize_table l df =
     (if \<not> table_empty df then
        (let numeric_df = select_dtypes_number df in
         if \<not> table_empty numeric_df then
           and_then (to_markdown l (transpose_frame (describe numeric_df)))
             (\<lambda>kpi_description_markdown. Inr (Some df, Some kpi_description_markdown, None))
         else Inr (Some df, Some no_numeric_sentinel, None))
      else Inr (None, None, Some ''Uploaded file is empty or contains no data.''))"

text \<open>The body of the \<^verbatim>\<open>try\<close>: the dispatch on the extension, then the digest.\<close>

definition ingest_body ::
  "libs \<Rightarrow> uploaded_file \<Rightarrow> exn + (table option \<times> string option \<times> string option)" where
  "ingest_body l f =
     (let file_extension = file_extension (file_name f);
          file_content = file_content f
      in if file_extension = ''csv'' then
           and_then (and_then (decode_utf8 l file_content) (read_csv l)) (summarize_table l)
         else if file_extension = ''xls'' \<or> file_extension = ''xlsx'' then
           and_then (read_excel l file_content) (summarize_table l)
         else if file_extension = ''json'' then
           and_then (and_then (decode_utf8 l file_content) (read_json l)) (summarize_table l)
         else Inr (None, None, Some unsupported_file_type))"

text \<open>
  The function: the table, the digest text and the error message, each \<^verbatim>\<open>None\<close> when
  absent. The handler turns every exception of the body into an error message.
\<close>

definition ingest_and_summarize_kpis ::
  "libs \<Rightarrow> uploaded_file \<Rightarrow> table option \<times> string option \<times> string option" where
  "ingest_and_summarize_kpis l f =
     (case ingest_body l f of
        Inl e \<Rightarrow> (None, None, Some (''Error ingesting or processing file: '' @ exc_str e))
      | Inr r \<Rightarrow> r)"

subsection \<open>Base64 and the UTF-8 encoder\<close>

text \<open>
  Modelled from the spec: \<^verbatim>\<open>base64.b64encode\<close> is Python's standard library, not the
  repository's. It is the encoding of RFC 4648: the standard alphabet, three bytes to four
  characters, \<^verbatim>\<open>=\<close> padding. \<open>b64decode\<close> is the strict decoder of the same RFC; it is
  what a reader of the artifact applies to the payload.
\<close>

definition b64_alphabet :: string where
  "b64_alphabet = ''ABCDEFGHIJKLMNOPQRSTUVWXYZabcdefghijklmnopqrstuvwxyz0123456789+/''"

definition b64_char :: "nat \<Rightarrow> char" where
  "b64_char n = b64_alphabet ! n"

fun index_of :: "'a \<Rightarrow> 'a list \<Rightarrow> nat option" where
  "index_of x [] = None"
| "index_of x (y # ys) = (if x = y then Some 0 else map_option Suc (index_of x ys))"

definition b64_index :: "char \<Rightarrow> nat option" where
  "b64_index c = index_of c b64_alphabet"

fun b64encode_bytes :: "nat list \<Rightarrow> string" where
  "b64encode_bytes [] = []"
| "b64encode_bytes [a] =
     [b64_char (a div 4), b64_char ((a mod 4) * 16), CHR ''='', CHR ''='']"
| "b64encode_bytes [a, b] =
     [b64_char (a div 4), b64_char ((a mod 4) * 16 + b div 16),
      b64_char ((b mod 16) * 4), CHR ''='']"
| "b64encode_bytes (a # b # c # rest) =
     [b64_char (a div 4), b64_char ((a mod 4) * 16 + b div 16),
      b64_char ((b mod 16) * 4 + c div 64), b64_char (c mod 64)]
     @ b64encode_bytes rest"

definition b64encode :: "string \<Rightarrow> string" where
  "b64encode bs = b64encode_bytes (map of_char bs)"

fun b64decode_chars :: "string \<Rightarrow> nat list option" where
  "b64decode_chars (w # x # y # z # rest) =
     (case (b64_index w, b64_index x) of
        (Some p, Some q) \<Rightarrow>
          if rest = [] \<and> z = CHR ''='' \<and> y = CHR ''='' then Some [p * 4 + q div 16]
          else (case b64_index y of
                  None \<Rightarrow> None
                | Some r \<Rightarrow>
                    if rest = [] \<and> z = CHR ''=''
                    then Some [p * 4 + q div 16, (q mod 16) * 16 + r div 4]
                    else (case b64_index z of
                            None \<Rightarrow> None
                          | Some s \<Rightarrow>
                              map_option
                                (\<lambda>bs. [p * 4 + q div 16, (q mod 16) * 16 + r div 4,
                                       (r mod 4) * 64 + s] @ bs)
                                (b64decode_chars rest)))
      | _ \<Rightarrow> None)"
| "b64decode_chars [] = Some []"
| "b64decode_chars _ = None"

definition b64decode :: "string \<Rightarrow> string option" where
  "b64decode s = map_option (map char_of) (b64decode_chars s)"

text \<open>
  \<^verbatim>\<open>s.encode("utf-8")\<close>: a \<^verbatim>\<open>str\<close> is held as its UTF-8 bytes, so the encoder
  returns them.
\<close>

definition encode_utf8 :: "string \<Rightarrow> string" where
  "encode_utf8 s = s"

subsection \<open>generate\_report\_and\_insights\<close>

definition download_filename_prefix :: "string \<Rightarrow> string" where
  "download_filename_prefix name = hd (split_on CHR ''.'' name)"

text \<open>The Markdown branch: the data link of the summary text.\<close>

definition markdown_download_link :: "string \<Rightarrow> string" where
  "markdown_download_link output_content =
     (let encoded_content = b64encode (encode_utf8 output_content);
          mime_type = ''text/markdown''
      in ''data:'' @ mime_type @ '';base64,'' @ encoded_content)"

text \<open>The text of the page's \<^verbatim>\<open>title\<close> element.\<close>

definition html_title :: "string \<Rightarrow> string" where
  "html_title name_prefix = ''KPI Summary - '' @ name_prefix"

definition html_content :: "string \<Rightarrow> string \<Rightarrow> string" where
  "html_content name_prefix html_summary =
     ''\<newline>'' @
     ''            <!DOCTYPE html>\<newline>'' @
     ''            <html lang=\"en\">\<newline>'' @
     ''            <head>\<newline>'' @
     ''                <meta charset=\"UTF-8\">\<newline>'' @
     ''                <meta name=\"viewport\" content=\"width=device-width, initial-scale=1.0\">\<newline>'' @
     ''                <title>'' @ html_title name_prefix @ ''</title>\<newline>'' @
     ''                <style>\<newline>'' @
     ''                    body { font-family: 'Inter', sans-serif; line-height: 1.6; margin: 20px; color: #333; }\<newline>'' @
     ''                    h1, h2, h3, h4, h5, h6 { font-family: 'Inter', sans-serif; color: #2E86C1; }\<newline>'' @
     ''                    h2 { border-bottom: 1px solid #eee; padding-bottom: 5px; margin-top: 30px; }\<newline>'' @
     ''                    pre { background-color: #f4f4f4; padding: 10px; border-radius: 5px; overflow-x: auto; }\<newline>'' @
     ''                    code { background-color: #f9f9f9; padding: 2px 4px; border-radius: 3px; font-family: monospace; }\<newline>'' @
     ''                    ul { list-style-type: disc; padding-left: 20px; }\<newline>'' @
     ''                    ol { padding-left: 20px; }\<newline>'' @
     ''                    ul li, ol li { margin-bottom: 5px; }\<newline>'' @
     ''                </style>\<newline>'' @
     ''            </head>\<newline>'' @
     ''            <body>\<newline>'' @
     ''                '' @ html_summary @ ''\<newline>'' @
     ''            </body>\<newline>'' @
     ''            </html>\<newline>'' @
     ''            ''"

text \<open>The HTML branch: the data link of the page.\<close>

definition html_download_link :: "string \<Rightarrow> string \<Rightarrow> string" where
  "html_download_link name_prefix html_summary =
     (let encoded_content =
            b64encode (encode_utf8 (html_content name_prefix html_summary));
          mime_type = ''text/html''
      in ''data:'' @ mime_type @ '';base64,'' @ encoded_content)"

text \<open>
  The result of the orchestration: the summary text, the download link, the success
  flag, the error message and the table.
\<close>

type_synonym report = "string \<times> string option \<times> bool \<times> string option \<times> table option"

text \<open>The statements from the file-name prefix to the last \<^verbatim>\<open>return\<close>.\<close>

definition package_report ::
  "libs \<Rightarrow> uploaded_file \<Rightarrow> string \<Rightarrow> string \<Rightarrow> table option \<Rightarrow> exn + report" where
  "package_report l f output_format summary_text df_kpis =
     (let download_filename_prefix = download_filename_prefix (file_name f);
          output_content = summary_text
      in if output_format = ''markdown'' then
           Inr (summary_text, Some (markdown_download_link output_content), True, None, df_kpis)
         else if output_format = ''html'' then
           and_then (markdown_render l output_content) (\<lambda>html_summary.
             Inr (summary_text,
                  Some (html_download_link download_filename_prefix html_summary),
                  True, None, df_kpis))
         else Inr (summary_text, None, False,
                   Some ''Unsupported output format for download.'', df_kpis))"

text \<open>The body of the \<^verbatim>\<open>try\<close>, after the call of the ingestion.\<close>

definition report_body ::
  "genai \<Rightarrow> libs \<Rightarrow> uploaded_file \<Rightarrow> string \<Rightarrow>
   table option \<Rightarrow> string option \<Rightarrow> string option \<Rightarrow> exn + report" where
  "report_body g l f output_format df_kpis kpi_description_markdown ingest_error =
     (if (case ingest_error of None \<Rightarrow> False | Some m \<Rightarrow> m \<noteq> []) then
        Inr ([], None, False,
             Some (''Data Ingestion Error: '' @ (case ingest_error of None \<Rightarrow> [] | Some m \<Rightarrow> m)),
             None)
      else if (case df_kpis of None \<Rightarrow> True | Some df \<Rightarrow> table_empty df) then
        Inr (''No data was successfully ingested or the file is empty.'', None, True, None, None)
      else
        and_then
          (if (case kpi_description_markdown of
                 None \<Rightarrow> True
               | Some md \<Rightarrow> str_contains md ''No numerical data'')
           then Inr ''No numerical KPIs found in the report to generate a detailed summary. Try uploading a report with numeric columns.''
           else generate_kpi_summary g
                  (case kpi_description_markdown of None \<Rightarrow> [] | Some md \<Rightarrow> md))
          (\<lambda>summary_text.
             if summary_text = [] \<or> startswith summary_text ''ERROR:'' then
               Inr ([], None, False, Some summary_text, df_kpis)
             else package_report l f output_format summary_text df_kpis))"

definition generate_report_and_insights ::
  "genai \<Rightarrow> libs \<Rightarrow> uploaded_file option \<Rightarrow> string \<Rightarrow> report" where
  "generate_report_and_insights g l uploaded_file output_format =
     (case uploaded_file of
        None \<Rightarrow> ([], None, False, Some ''Please upload a report file to get started.'', None)
      | Some f \<Rightarrow>
          (case ingest_and_summarize_kpis l f of
             (df_kpis, kpi_description_markdown, ingest_error) \<Rightarrow>
               (case report_body g l f output_format df_kpis kpi_description_markdown
                       ingest_error of
                  Inl e \<Rightarrow>
                    ([], None, False,
                     Some (''An unexpected error occurred during report processing: '' @ exc_str e),
                     df_kpis)
                | Inr r \<Rightarrow> r)))"

section \<open>The file-name stem of the specification\<close>

text \<open>
  The stem as the specification words it: the name with its final extension removed,
  that is, without its last \<^verbatim>\<open>.\<close> and what follows it; a name without \<^verbatim>\<open>.\<close> is
  its own stem. The program does not compute it; it is here to be compared with
  \<open>download_filename_prefix\<close>.
\<close>

definition spec_filename_stem :: "string \<Rightarrow> string" where
  "spec_filename_stem name =
     (if CHR ''.'' \<in> set name then rev (tl (dropWhile (\<lambda>c. c \<noteq> CHR ''.'') (rev name)))
      else name)"

section \<open>Sample inputs\<close>

text \<open>
  A remote capability that has a key, a standard output that prints every line, lists
  one embedding model and one text model, and answers every call; the instances of the
  theorems below are taken at it.
\<close>

definition sample_response :: "string \<Rightarrow> response" where
  "sample_response t = \<lparr>resp_parts = Inr [t], resp_text = Inr t, resp_candidates = Inr []\<rparr>"

definition sample_genai :: genai where
  "sample_genai =
     \<lparr>getenv_api_key = Some ''secret'',
      stdout_print = (\<lambda>_. Inr ()),
      configure = (\<lambda>_. Inr ()),
      list_models =
        Inr [\<lparr>mi_name = ''models/embedding-001'', mi_supported_generation_methods = None\<rparr>,
             \<lparr>mi_name = ''models/gemini-pro'',
              mi_supported_generation_methods = Some [''generateContent'', ''countTokens'']\<rparr>],
      generative_model = (\<lambda>_. Inr ()),
      generate_content = (\<lambda>_ _ _. Inr (Some (sample_response ''Revenue grew.''))),
      start_chat = (\<lambda>_ _. Inr ()),
      send_message = (\<lambda>_ _ _. Inr (Some (sample_response ''It grew.'')))\<rparr>"

text \<open>
  A table with a textual and a numeric column, libraries that parse every CSV file to
  it, and an uploaded CSV file.
\<close>

definition sample_table :: table where
  "sample_table =
     \<lparr>nrows = 5,
      columns = [(''month'', TextualCol [Some ''Jan'', Some ''Feb'', Some ''Mar'', Some ''Apr'', Some ''May'']),
                 (''revenue'', NumericCol [Some 1, Some 2, Some 3, Some 4, Some 5])]\<rparr>"

definition sample_libs :: libs where
  "sample_libs =
     \<lparr>decode_utf8 = (\<lambda>bs. Inr bs),
      read_csv = (\<lambda>_. Inr sample_table),
      read_excel = (\<lambda>_. Inl (OtherError ''File is not a zip file'')),
      read_json = (\<lambda>_. Inl (ValueError ''Expected object or value'')),
      to_markdown = (\<lambda>fr. Inr (concat (map (\<lambda>n. ''| '' @ n @ '' '') (frame_index fr)) @ ''|'')),
      markdown_render = (\<lambda>s. Inr (''<p>'' @ s @ ''</p>''))\<rparr>"

definition sample_file :: uploaded_file where
  "sample_file = \<lparr>file_name = ''report.csv'', file_content = ''month,revenue''\<rparr>"

text \<open>
  Two variants of the remote capability: one whose generation call returns a response
  without parts and without candidates, one whose generation call raises.
\<close>

definition silent_genai :: genai where
  "silent_genai =
     sample_genai\<lparr>generate_content :=
       (\<lambda>_ _ _. Inr (Some \<lparr>resp_parts = Inr [], resp_text = Inl (ValueError ''no valid Part''),
                               resp_candidates = Inr []\<rparr>))\<rparr>"

definition unavailable_genai :: genai where
  "unavailable_genai =
     sample_genai\<lparr>generate_content := (\<lambda>_ _ _. Inl (OtherError ''503 Service Unavailable''))\<rparr>"

text \<open>
  A process whose standard output is encoded as ASCII, so that \<^verbatim>\<open>print\<close> raises
  \<^verbatim>\<open>UnicodeEncodeError\<close> (a \<^verbatim>\<open>ValueError\<close>) on a line with a byte above 127, and a
  remote whose generation call raises with the message "Quota exceeded - retry later",
  the dash being the en dash U+2013 (the bytes E2 80 93).
\<close>

definition quota_message :: string where
  "quota_message = ''Quota exceeded '' @ [CHR 0xE2, CHR 0x80, CHR 0x93] @ '' retry later''"

definition ascii_stdout_genai :: genai where
  "ascii_stdout_genai =
     sample_genai
       \<lparr>stdout_print :=
          (\<lambda>s. if list_all (\<lambda>c. (of_char c :: nat) < 128) s then Inr ()
                else Inl (ValueError ''ascii codec cannot encode character U+2013'')),
        generate_content := (\<lambda>_ _ _. Inl (OtherError quota_message))\<rparr>"

text \<open>
  A table without a numeric column, and libraries that parse every CSV file to it.
\<close>

definition text_table :: table where
  "text_table =
     \<lparr>nrows = 2,
      columns = [(''region'', TextualCol [Some ''north'', Some ''south'']),
                 (''opened'', TemporalCol [Some 19000, None])]\<rparr>"

definition text_libs :: libs where
  "text_libs = sample_libs\<lparr>read_csv := (\<lambda>_. Inr text_table)\<rparr>"

section \<open>Properties\<close>

subsection \<open>Auxiliary facts\<close>


lemma and_then_Inl [simp]: "and_then (Inl e) f = Inl e"
  and and_then_Inr [simp]: "and_then (Inr v) f = f v"
  by (simp_all add: and_then_def)

lemma getitem_Some [simp]: "d k = Some v \<Longrightarrow> getitem d k = Inr v"
  by (simp add: getitem_def)



lemma chat_with_llm_no_call:
  "chatbot_init g = Inl e \<Longrightarrow> snd (chat_with_llm g X Q h) = []"
  by (simp add: chat_with_llm_def)


subsection \<open>The turns sent by chat\_with\_llm\<close>



subsection \<open>The sample inputs, evaluated\<close>

lemma file_extension_report_csv: "file_extension ''report.csv'' = ''csv''"
  by code_simp

lemma summarize_sample_table:
  "summarize_table sample_libs sample_table = Inr (Some sample_table, Some ''| revenue |'', None)"
  by (simp add: summarize_table_def table_empty_def select_dtypes_number_def sample_table_def
      sample_libs_def describe_def transpose_frame_def and_then_def)

lemma ingest_sample_file:
  "ingest_and_summarize_kpis sample_libs sample_file =
     (Some sample_table, Some ''| revenue |'', None)"
proof -
  have "ingest_body sample_libs sample_file = summarize_table sample_libs sample_table"
    by (simp add: ingest_body_def sample_file_def file_extension_report_csv Let_def)
       (simp add: sample_libs_def and_then_def)
  then show ?thesis
    by (simp add: ingest_and_summarize_kpis_def summarize_sample_table)
qed

lemma generate_kpi_summary_unavailable:
  "generate_kpi_summary unavailable_genai ''| revenue |'' =
     Inr ''ERROR: An error occurred while calling the Google Generative AI API for KPI summary: 503 Service Unavailable''"
  by code_simp

lemma not_contains_sample: "\<not> str_contains ''| revenue |'' ''No numerical data''"
  by code_simp

lemma kpi_summary_init_silent_genai: "kpi_summary_init silent_genai = Inr ''gemini-pro''"
  by code_simp

lemma markdown_link_fallback:
  "markdown_download_link
     ''AI response structure not as expected for KPI summary. Could not extract text.'' =
   ''data:text/markdown;base64,QUkgcmVzcG9uc2Ugc3RydWN0dXJlIG5vdCBhcyBleHBlY3RlZCBmb3IgS1BJIHN1bW1hcnkuIENvdWxkIG5vdCBleHRyYWN0IHRleHQu''"
  by code_simp

subsection \<open>generate\_kpi\_summary: what it returns and what leaves it\<close>

lemma generate_kpi_summary_init_failure:
  "kpi_summary_init g = Inl e \<Longrightarrow>
   generate_kpi_summary g md =
     Inr (''ERROR: Could not initialize Generative Model for KPI summary: '' @ exc_str e)"
  by (simp add: generate_kpi_summary_def)

lemma generate_kpi_summary_call_failure:
  "kpi_summary_init g = Inr n \<Longrightarrow>
   and_then (generate_content g n (kpi_prompt md) (2 / 10)) summary_of_response = Inl e \<Longrightarrow>
   generate_kpi_summary g md =
     and_then (stdout_print g (''DEBUG: Error during LLM API call for KPI summary: '' @ exc_str e))
       (\<lambda>_. Inr (''ERROR: An error occurred while calling the Google Generative AI API for KPI summary: ''
                 @ exc_str e))"
  by (simp add: generate_kpi_summary_def)

lemma generate_kpi_summary_raises_only_from_print:
  "generate_kpi_summary g md = Inl e \<Longrightarrow>
   \<exists>n e'. kpi_summary_init g = Inr n
     \<and> and_then (generate_content g n (kpi_prompt md) (2 / 10)) summary_of_response = Inl e'
     \<and> stdout_print g (''DEBUG: Error during LLM API call for KPI summary: '' @ exc_str e') = Inl e"
  by (auto simp add: generate_kpi_summary_def and_then_def split: sum.splits)

text \<open>
  Claim C2. The claim does not hold of the code. The handler of the generation call
  prints a debug line with the text of the exception before it returns the error string,
  and that \<^verbatim>\<open>print\<close> is guarded by no \<^verbatim>\<open>try\<close>. With a standard output encoded as
  ASCII and a generation call that raises with a message holding an en dash, the first
  \<^verbatim>\<open>try\<close> succeeds (its own debug line is ASCII), the generation call raises, and the
  handler's \<^verbatim>\<open>print\<close> raises \<^verbatim>\<open>UnicodeEncodeError\<close>: \<^verbatim>\<open>generate_kpi_summary\<close> raises
  instead of returning a string with the prefix \<^verbatim>\<open>ERROR:\<close>. By the lemma above this
  \<^verbatim>\<open>print\<close> is the only statement whose exception leaves the function.
\<close>

theorem generate_kpi_summary_handler_print_raises:
  "kpi_summary_init ascii_stdout_genai = Inr ''gemini-pro''
   \<and> generate_content ascii_stdout_genai ''gemini-pro'' (kpi_prompt ''| revenue |'') (2 / 10) =
       Inl (OtherError quota_message)
   \<and> generate_kpi_summary ascii_stdout_genai ''| revenue |'' =
       Inl (ValueError ''ascii codec cannot encode character U+2013'')"
  by code_simp

subsection \<open>What ingestion returns with a table\<close>

lemma ingest_Some:
  "ingest_and_summarize_kpis l f = (Some df, Some md, err) \<Longrightarrow>
   summarize_table l df = Inr (Some df, Some md, None) \<and> \<not> table_empty df \<and> err = None"
proof -
  assume a: "ingest_and_summarize_kpis l f = (Some df, Some md, err)"
  have s: "\<And>t. summarize_table l t = Inr (Some df, Some md, err) \<Longrightarrow>
      summarize_table l df = Inr (Some df, Some md, None) \<and> \<not> table_empty df \<and> err = None"
    by (auto simp add: summarize_table_def Let_def and_then_def split: if_splits sum.splits)
  from a obtain t where "summarize_table l t = Inr (Some df, Some md, err)"
    by (auto simp add: ingest_and_summarize_kpis_def ingest_body_def Let_def and_then_def
        split: if_splits sum.splits)
  then show ?thesis by (rule s)
qed

subsection \<open>A failed summary keeps the table\<close>

text \<open>
  Claim C9. When the ingestion returned a table and a digest, the digest is handed to the
  summarizer, and the summarizer returns a string that begins with \<^verbatim>\<open>ERROR:\<close>, then
  \<^verbatim>\<open>generate_report_and_insights\<close> returns, for every output format, an empty summary,
  no download link, success \<^verbatim>\<open>False\<close>, the summarizer's string as the error message
  and the ingested table. The digest is not among the five results; it is what the digest
  builder yields again on the returned table.
\<close>

theorem summarizer_failure_keeps_table:
  "ingest_and_summarize_kpis l f = (Some df, Some md, None) \<Longrightarrow>
   \<not> str_contains md ''No numerical data'' \<Longrightarrow>
   generate_kpi_summary g md = Inr s \<Longrightarrow>
   startswith s ''ERROR:'' \<Longrightarrow>
   generate_report_and_insights g l (Some f) output_format = ([], None, False, Some s, Some df)
   \<and> summarize_table l df = Inr (Some df, Some md, None)"
proof -
  assume a: "ingest_and_summarize_kpis l f = (Some df, Some md, None)"
    and b: "\<not> str_contains md ''No numerical data''"
    and c: "generate_kpi_summary g md = Inr s"
    and d: "startswith s ''ERROR:''"
  from ingest_Some [OF a] have e: "summarize_table l df = Inr (Some df, Some md, None)"
    and ne: "\<not> table_empty df" by simp_all
  have "report_body g l f output_format (Some df) (Some md) None =
      Inr ([], None, False, Some s, Some df)"
    using b c d ne by (simp add: report_body_def)
  then show ?thesis
    using a e by (simp add: generate_report_and_insights_def)
qed

theorem summarizer_failure_keeps_table_witness:
  "generate_report_and_insights unavailable_genai sample_libs (Some sample_file) ''markdown'' =
     ([], None, False,
      Some ''ERROR: An error occurred while calling the Google Generative AI API for KPI summary: 503 Service Unavailable'',
      Some sample_table)"
  using summarizer_failure_keeps_table
    [OF ingest_sample_file not_contains_sample generate_kpi_summary_unavailable, of "''markdown''"]
  by (simp add: startswith_def)

subsection \<open>A response without text is packaged as a success\<close>

text \<open>
  Claim C10. When the body of the first \<^verbatim>\<open>try\<close> has returned the model's name and
  the generation call returns a response whose parts are empty and
  which has no candidate, or a first candidate with empty text, the summarizer returns
  the fixed sentence "AI response structure not as expected for KPI summary. Could not
  extract text.", which does not begin with \<^verbatim>\<open>ERROR:\<close>. The orchestration then takes the
  run for a success: for the output format \<^verbatim>\<open>markdown\<close> it returns that sentence as the
  summary, its data link, success \<^verbatim>\<open>True\<close>, no error message and the table; for
  \<^verbatim>\<open>html\<close> the same with the page's data link, when the renderer returns.
\<close>

theorem empty_response_is_packaged:
  "kpi_summary_init g = Inr n \<Longrightarrow>
   generate_content g n (kpi_prompt md) (2 / 10) = Inr (Some r) \<Longrightarrow>
   resp_parts r = Inr [] \<Longrightarrow>
   resp_candidates r = Inr [] \<or> (\<exists>c cs. resp_candidates r = Inr (c # cs) \<and> cand_text c = Inr []) \<Longrightarrow>
   generate_kpi_summary g md =
     Inr ''AI response structure not as expected for KPI summary. Could not extract text.''
   \<and> \<not> startswith ''AI response structure not as expected for KPI summary. Could not extract text.'' ''ERROR:''
   \<and> (ingest_and_summarize_kpis l f = (Some df, Some md, None) \<and>
        \<not> str_contains md ''No numerical data'' \<longrightarrow>
        generate_report_and_insights g l (Some f) ''markdown'' =
          (''AI response structure not as expected for KPI summary. Could not extract text.'',
           Some (markdown_download_link
                   ''AI response structure not as expected for KPI summary. Could not extract text.''),
           True, None, Some df)
        \<and> (\<forall>h. markdown_render l
                   ''AI response structure not as expected for KPI summary. Could not extract text.'' = Inr h \<longrightarrow>
               generate_report_and_insights g l (Some f) ''html'' =
                 (''AI response structure not as expected for KPI summary. Could not extract text.'',
                  Some (html_download_link (download_filename_prefix (file_name f)) h),
                  True, None, Some df)))"
proof -
  let ?fb = "''AI response structure not as expected for KPI summary. Could not extract text.''"
  assume init: "kpi_summary_init g = Inr n"
    and gen: "generate_content g n (kpi_prompt md) (2 / 10) = Inr (Some r)"
    and parts: "resp_parts r = Inr []"
    and cands: "resp_candidates r = Inr [] \<or>
                (\<exists>c cs. resp_candidates r = Inr (c # cs) \<and> cand_text c = Inr [])"
  have "summary_of_response (Some r) = Inr ?fb"
    using parts cands by (auto simp add: summary_of_response_def)
  then have sum: "generate_kpi_summary g md = Inr ?fb"
    using init gen by (simp add: generate_kpi_summary_def)
  have nerr: "\<not> startswith ?fb ''ERROR:''"
    by (simp add: startswith_def)
  have rep: "generate_report_and_insights g l (Some f) fmt =
        (case package_report l f fmt ?fb (Some df) of
           Inl e \<Rightarrow> ([], None, False,
                     Some (''An unexpected error occurred during report processing: '' @ exc_str e),
                     Some df)
         | Inr rp \<Rightarrow> rp)"
    if a: "ingest_and_summarize_kpis l f = (Some df, Some md, None)"
      and b: "\<not> str_contains md ''No numerical data''" for fmt
  proof -
    from ingest_Some [OF a] have ne: "\<not> table_empty df" by simp
    have "report_body g l f fmt (Some df) (Some md) None = package_report l f fmt ?fb (Some df)"
      using b ne sum nerr by (simp add: report_body_def)
    then show ?thesis using a by (simp add: generate_report_and_insights_def)
  qed
  show ?thesis
    using sum nerr rep by (auto simp add: package_report_def Let_def)
qed

theorem empty_response_is_packaged_witness:
  "generate_report_and_insights silent_genai sample_libs (Some sample_file) ''markdown'' =
     (''AI response structure not as expected for KPI summary. Could not extract text.'',
      Some ''data:text/markdown;base64,QUkgcmVzcG9uc2Ugc3RydWN0dXJlIG5vdCBhcyBleHBlY3RlZCBmb3IgS1BJIHN1bW1hcnkuIENvdWxkIG5vdCBleHRyYWN0IHRleHQu'',
      True, None, Some sample_table)"
proof -
  let ?r = "\<lparr>resp_parts = Inr [], resp_text = Inl (ValueError ''no valid Part''),
            resp_candidates = Inr []\<rparr>"
  have gen: "generate_content silent_genai ''gemini-pro'' (kpi_prompt ''| revenue |'') (2 / 10) = Inr (Some ?r)"
    by (simp add: silent_genai_def)
  have p: "resp_parts ?r = Inr []" by simp
  have c: "resp_candidates ?r = Inr [] \<or> (\<exists>c cs. resp_candidates ?r = Inr (c # cs) \<and> cand_text c = Inr [])"
    by simp
  from empty_response_is_packaged [OF kpi_summary_init_silent_genai gen p c, of sample_libs sample_file sample_table]
  show ?thesis
    using ingest_sample_file not_contains_sample by (simp add: markdown_link_fallback)
qed

subsection \<open>Base64 decodes what it encodes\<close>

lemma index_of_nth: "distinct xs \<Longrightarrow> n < length xs \<Longrightarrow> index_of (xs ! n) xs = Some n"
proof (induction xs arbitrary: n)
  case Nil
  then show ?case by simp
next
  case (Cons y ys)
  show ?case
  proof (cases n)
    case 0
    then show ?thesis by simp
  next
    case (Suc k)
    with Cons.prems have "ys ! k \<in> set ys" "y \<notin> set ys" by auto
    then have "ys ! k \<noteq> y" by auto
    with Cons Suc show ?thesis by auto
  qed
qed

lemma index_of_None: "x \<notin> set xs \<Longrightarrow> index_of x xs = None"
  by (induction xs) auto

lemma b64_alphabet_distinct: "distinct b64_alphabet"
  by code_simp

lemma b64_alphabet_length: "length b64_alphabet = 64"
  by (simp add: b64_alphabet_def)

lemma b64_index_char: "n < 64 \<Longrightarrow> b64_index (b64_char n) = Some n"
  by (simp add: b64_index_def b64_char_def index_of_nth b64_alphabet_distinct b64_alphabet_length)

lemma b64_index_pad: "b64_index CHR ''='' = None"
  by code_simp

lemma b64_char_not_pad: "n < 64 \<Longrightarrow> b64_char n \<noteq> CHR ''=''"
  using b64_index_char [of n] b64_index_pad by auto

lemma pack_div: "q < n \<Longrightarrow> (x * n + q) div n = (x::nat)"
  by simp
lemma pack_mod: "q < n \<Longrightarrow> (x * n + q) mod n = (q::nat)"
  by simp
lemma div_lt: "(b::nat) < m * n \<Longrightarrow> b div n < m"
  by (simp add: less_mult_imp_div_less)
lemma pack_lt: "(x::nat) < m \<Longrightarrow> q < n \<Longrightarrow> x * n + q < m * n"
proof -
  assume "x < m" "q < n"
  then have "x * n + q < x * n + n" by simp
  also have "\<dots> = Suc x * n" by simp
  also have "\<dots> \<le> m * n" using \<open>x < m\<close> by (intro mult_le_mono1) simp
  finally show ?thesis .
qed

lemma sextet1: "(a::nat) < 256 \<Longrightarrow> a div 4 < 64" 
  by (rule div_lt) simp
lemma sextet2: "(b::nat) < 256 \<Longrightarrow> (a mod 4) * 16 + b div 16 < 64"
  using pack_lt [of "a mod 4" 4 "b div 16" 16] div_lt [of b 16 16] by simp
lemma sextet3: "c < 256 \<Longrightarrow> ((b::nat) mod 16) * 4 + c div 64 < 64"
  using pack_lt [of "b mod 16" 16 "c div 64" 4] div_lt [of c 4 64] by simp
lemma join0: "((a::nat) div 4) * 4 + ((a mod 4) * 16) div 16 = a" by simp
lemma join1: "(b::nat) < 256 \<Longrightarrow> (a div 4) * 4 + ((a mod 4) * 16 + b div 16) div 16 = a"
  using pack_div [of "b div 16" 16 "a mod 4"] div_lt [of b 16 16] by simp
lemma join2a: "(b::nat) < 256 \<Longrightarrow> (((a mod 4) * 16 + b div 16) mod 16) * 16 + ((b mod 16) * 4) div 4 = b"
  using pack_mod [of "b div 16" 16 "a mod 4"] div_lt [of b 16 16] by simp
lemma join2: "(b::nat) < 256 \<Longrightarrow> c < 256 \<Longrightarrow> (((a mod 4) * 16 + b div 16) mod 16) * 16 + ((b mod 16) * 4 + c div 64) div 4 = b"
  using pack_mod [of "b div 16" 16 "a mod 4"] div_lt [of b 16 16]
    pack_div [of "c div 64" 4 "b mod 16"] div_lt [of c 4 64] by simp
lemma join3: "(c::nat) < 256 \<Longrightarrow> (((b mod 16) * 4 + c div 64) mod 4) * 64 + c mod 64 = c"
  using pack_mod [of "c div 64" 4 "b mod 16"] div_lt [of c 4 64] by simp


lemma b64decode_chars_encode:
  "list_all (\<lambda>b. b < 256) bs \<Longrightarrow> b64decode_chars (b64encode_bytes bs) = Some bs"
proof (induction bs rule: b64encode_bytes.induct)
  case 1
  then show ?case by simp
next
  case (2 a)
  then have a: "a < 256" by simp
  have "a mod 4 * 16 < 64"
    using pack_lt [of "a mod 4" 4 0 16] by simp
  with sextet1 [OF a] join0 [of a] show ?case
    by (simp add: b64_index_char)
next
  case (3 a b)
  then have ab: "a < 256" "b < 256" by simp_all
  have "b mod 16 * 4 < 64"
    using pack_lt [of "b mod 16" 16 0 4] by simp
  with sextet1 [OF ab(1)] sextet2 [OF ab(2), of a] join1 [OF ab(2), of a] join2a [OF ab(2), of a]
  show ?case
    by (simp add: b64_index_char b64_char_not_pad)
next
  case (4 a b c rest)
  then have abc: "a < 256" "b < 256" "c < 256" and rest: "list_all (\<lambda>b. b < 256) rest"
    by simp_all
  from 4 rest have ih: "b64decode_chars (b64encode_bytes rest) = Some rest" by simp
  have c4: "c mod 64 < 64" by simp
  from sextet1 [OF abc(1)] sextet2 [OF abc(2), of a] sextet3 [OF abc(3), of b] c4
    join1 [OF abc(2), of a] join2 [OF abc(2,3), of a] join3 [OF abc(3), of b] ih
  show ?case
    by (simp add: b64_index_char b64_char_not_pad)
qed

lemma b64_roundtrip: "b64decode (b64encode s) = Some s"
proof -
  have "list_all (\<lambda>b. b < 256) (map of_char s :: nat list)"
    by (simp add: list_all_iff)
  then have "b64decode_chars (b64encode s) = Some (map of_char s)"
    unfolding b64encode_def by (rule b64decode_chars_encode)
  then show ?thesis
    by (simp add: b64decode_def comp_def)
qed

subsection \<open>Where a download link comes from\<close>

lemma package_report_link:
  "package_report l f fmt t df = Inr (t', Some link, ok, err, df') \<Longrightarrow>
   t' = t \<and> ok \<and> err = None \<and> df' = df \<and>
   (fmt = ''markdown'' \<and> link = markdown_download_link t \<or>
    fmt = ''html'' \<and> (\<exists>h. markdown_render l t = Inr h \<and>
       link = html_download_link (download_filename_prefix (file_name f)) h))"
  by (auto simp add: package_report_def Let_def and_then_def split: if_splits sum.splits)

lemma report_body_link:
  "report_body g l f fmt dfo mdo ierr = Inr (t, Some link, ok, err, df) \<Longrightarrow>
   \<exists>t0. package_report l f fmt t0 dfo = Inr (t, Some link, ok, err, df)"
  by (auto simp add: report_body_def and_then_def split: if_splits sum.splits option.splits)

lemma generate_report_link:
  "generate_report_and_insights g l uf fmt = (t, Some link, ok, err, df) \<Longrightarrow>
   \<exists>f dfo. uf = Some f \<and> package_report l f fmt t dfo = Inr (t, Some link, ok, err, df)"
proof -
  assume a: "generate_report_and_insights g l uf fmt = (t, Some link, ok, err, df)"
  then obtain f where f: "uf = Some f"
    by (cases uf) (simp_all add: generate_report_and_insights_def)
  obtain dfo mdo ierr where i: "ingest_and_summarize_kpis l f = (dfo, mdo, ierr)"
    by (cases "ingest_and_summarize_kpis l f") auto
  from a f i have "report_body g l f fmt dfo mdo ierr = Inr (t, Some link, ok, err, df)"
    by (simp add: generate_report_and_insights_def split: sum.splits)
  from report_body_link [OF this] obtain t0 where
    p: "package_report l f fmt t0 dfo = Inr (t, Some link, ok, err, df)" by blast
  from package_report_link [OF p] have "t = t0" by simp
  with p f show ?thesis by blast
qed

lemma generate_kpi_summary_sample:
  "generate_kpi_summary sample_genai ''| revenue |'' = Inr ''Revenue grew.''"
  by code_simp

lemma markdown_link_sample:
  "markdown_download_link ''Revenue grew.'' = ''data:text/markdown;base64,UmV2ZW51ZSBncmV3Lg==''"
  by code_simp

lemma generate_report_sample_markdown:
  "generate_report_and_insights sample_genai sample_libs (Some sample_file) ''markdown'' =
     (''Revenue grew.'', Some ''data:text/markdown;base64,UmV2ZW51ZSBncmV3Lg=='', True, None,
      Some sample_table)"
proof -
  have "\<not> table_empty sample_table"
    by (simp add: table_empty_def sample_table_def)
  then have "report_body sample_genai sample_libs sample_file ''markdown'' (Some sample_table)
      (Some ''| revenue |'') None =
     Inr (''Revenue grew.'', Some ''data:text/markdown;base64,UmV2ZW51ZSBncmV3Lg=='', True, None,
      Some sample_table)"
    by (simp add: report_body_def not_contains_sample generate_kpi_summary_sample startswith_def
        package_report_def markdown_link_sample)
  then show ?thesis
    by (simp add: generate_report_and_insights_def ingest_sample_file)
qed

subsection \<open>The Markdown artifact decodes to the narrative\<close>

text \<open>
  Claim C6. For every narrative text, the Markdown branch wraps the text unchanged: the
  link is \<^verbatim>\<open>data:text/markdown;base64,\<close> followed by the Base64 encoding of the text,
  so the MIME type is text/markdown, and decoding the payload after that prefix gives
  back exactly the text. Whenever \<^verbatim>\<open>generate_report_and_insights\<close> returns a link for
  the output format \<^verbatim>\<open>markdown\<close>, the link is that of the summary text it returns, with
  success \<^verbatim>\<open>True\<close> and no error message.
\<close>

theorem markdown_artifact_roundtrip:
  "markdown_download_link s = ''data:text/markdown;base64,'' @ b64encode s
   \<and> b64decode (drop (length ''data:text/markdown;base64,'') (markdown_download_link s)) = Some s
   \<and> (generate_report_and_insights g l uf ''markdown'' = (t, Some link, ok, err, df) \<longrightarrow>
        link = ''data:text/markdown;base64,'' @ b64encode t \<and> b64decode (b64encode t) = Some t
        \<and> ok \<and> err = None)"
proof (intro conjI impI)
  show l: "markdown_download_link s = ''data:text/markdown;base64,'' @ b64encode s" for s
    by (simp add: markdown_download_link_def encode_utf8_def)
  show "b64decode (drop (length ''data:text/markdown;base64,'') (markdown_download_link s)) = Some s"
    by (simp add: l b64_roundtrip)
  assume "generate_report_and_insights g l uf ''markdown'' = (t, Some link, ok, err, df)"
  from generate_report_link [OF this] obtain f dfo where
    "package_report l f ''markdown'' t dfo = Inr (t, Some link, ok, err, df)" by blast
  from package_report_link [OF this]
  have "link = markdown_download_link t" "ok" "err = None" by simp_all
  then show "link = ''data:text/markdown;base64,'' @ b64encode t"
    and "b64decode (b64encode t) = Some t" and "ok" and "err = None"
    by (simp_all add: l b64_roundtrip)
qed

theorem markdown_artifact_roundtrip_witness:
  "generate_report_and_insights sample_genai sample_libs (Some sample_file) ''markdown'' =
     (''Revenue grew.'', Some ''data:text/markdown;base64,UmV2ZW51ZSBncmV3Lg=='', True, None,
      Some sample_table)
   \<and> ''data:text/markdown;base64,UmV2ZW51ZSBncmV3Lg=='' =
       ''data:text/markdown;base64,'' @ b64encode ''Revenue grew.''
   \<and> b64decode ''UmV2ZW51ZSBncmV3Lg=='' = Some ''Revenue grew.''"
  using markdown_artifact_roundtrip
    [of "''Revenue grew.''" sample_genai sample_libs "Some sample_file" "''Revenue grew.''"
        "''data:text/markdown;base64,UmV2ZW51ZSBncmV3Lg==''" True None "Some sample_table"]
    generate_report_sample_markdown
  by simp

subsection \<open>Splitting a file name at its dots\<close>

lemma split_on_nonempty: "split_on c s \<noteq> []"
  by (induction s) (simp_all add: Let_def)

lemma hd_split_on: "hd (split_on c s) = takeWhile (\<lambda>x. x \<noteq> c) s"
  by (induction s) (simp_all add: Let_def)

lemma split_on_no_sep: "c \<notin> set s \<Longrightarrow> split_on c s = [s]"
  by (induction s) (auto simp add: Let_def)

lemma tl_split_on_sep: "c \<in> set s \<Longrightarrow> tl (split_on c s) \<noteq> []"
  by (induction s) (auto simp add: Let_def split_on_nonempty)

lemma last_split_on: "c \<notin> set suf \<Longrightarrow> last (split_on c (pre @ c # suf)) = suf"
proof (induction pre)
  case Nil
  then show ?case by (simp add: split_on_no_sep)
next
  case (Cons x pre)
  have "tl (split_on c (pre @ c # suf)) \<noteq> []"
    by (rule tl_split_on_sep) simp
  with Cons show ?case
    by (simp add: Let_def split_on_nonempty last_tl)
qed

lemma file_extension_after_last_dot:
  "CHR ''.'' \<notin> set suffix \<Longrightarrow> file_extension (stem @ ''.'' @ suffix) = lower suffix"
  by (simp add: file_extension_def last_split_on)

lemma file_extension_no_dot:
  "CHR ''.'' \<notin> set name \<Longrightarrow> file_extension name = lower name"
  by (simp add: file_extension_def split_on_no_sep)

lemma prefix_is_stem_one_dot:
  "CHR ''.'' \<notin> set stem \<Longrightarrow> CHR ''.'' \<notin> set ext \<Longrightarrow>
   download_filename_prefix (stem @ ''.'' @ ext) = stem \<and> spec_filename_stem (stem @ ''.'' @ ext) = stem"
proof -
  assume s: "CHR ''.'' \<notin> set stem" and e: "CHR ''.'' \<notin> set ext"
  have "takeWhile (\<lambda>x. x \<noteq> CHR ''.'') (stem @ CHR ''.'' # ext) = stem"
    using s by (auto simp add: takeWhile_tail)
  moreover have "dropWhile (\<lambda>c. c \<noteq> CHR ''.'') (rev ext @ CHR ''.'' # rev stem) = CHR ''.'' # rev stem"
    using e by (auto simp add: dropWhile_append3)
  ultimately show ?thesis
    by (simp add: download_filename_prefix_def hd_split_on spec_filename_stem_def)
qed

subsection \<open>The page of the HTML branch\<close>

lemma html_content_template:
  "\<exists>pre mid post. \<forall>p h.
     html_content p h = pre @ ''<title>KPI Summary - '' @ p @ ''</title>'' @ mid @ h @ post"
  by (rule exI [of _ "''\<newline>            <!DOCTYPE html>\<newline>            <html lang=\"en\">\<newline>            <head>\<newline>                <meta charset=\"UTF-8\">\<newline>                <meta name=\"viewport\" content=\"width=device-width, initial-scale=1.0\">\<newline>                ''"],
      rule exI [of _ "''\<newline>                <style>\<newline>                    body { font-family: 'Inter', sans-serif; line-height: 1.6; margin: 20px; color: #333; }\<newline>                    h1, h2, h3, h4, h5, h6 { font-family: 'Inter', sans-serif; color: #2E86C1; }\<newline>                    h2 { border-bottom: 1px solid #eee; padding-bottom: 5px; margin-top: 30px; }\<newline>                    pre { background-color: #f4f4f4; padding: 10px; border-radius: 5px; overflow-x: auto; }\<newline>                    code { background-color: #f9f9f9; padding: 2px 4px; border-radius: 3px; font-family: monospace; }\<newline>                    ul { list-style-type: disc; padding-left: 20px; }\<newline>                    ol { padding-left: 20px; }\<newline>                    ul li, ol li { margin-bottom: 5px; }\<newline>                </style>\<newline>            </head>\<newline>            <body>\<newline>                ''"],
      rule exI [of _ "''\<newline>            </body>\<newline>            </html>\<newline>            ''"])
     (simp add: html_content_def html_title_def)

lemma html_link_sample_prefix: "download_filename_prefix ''report.csv'' = ''report''"
  by code_simp

lemma generate_report_sample_html:
  "generate_report_and_insights sample_genai sample_libs (Some sample_file) ''html'' =
     (''Revenue grew.'', Some (html_download_link ''report'' ''<p>Revenue grew.</p>''), True, None,
      Some sample_table)"
proof -
  have "\<not> table_empty sample_table"
    by (simp add: table_empty_def sample_table_def)
  moreover have "markdown_render sample_libs ''Revenue grew.'' = Inr ''<p>Revenue grew.</p>''"
    by (simp add: sample_libs_def)
  moreover have "file_name sample_file = ''report.csv''"
    by (simp add: sample_file_def)
  ultimately have "report_body sample_genai sample_libs sample_file ''html'' (Some sample_table)
      (Some ''| revenue |'') None =
     Inr (''Revenue grew.'', Some (html_download_link ''report'' ''<p>Revenue grew.</p>''), True, None,
      Some sample_table)"
    by (simp add: report_body_def not_contains_sample generate_kpi_summary_sample startswith_def
        package_report_def html_link_sample_prefix)
  then show ?thesis
    by (simp add: generate_report_and_insights_def ingest_sample_file)
qed

subsection \<open>The title of the HTML artifact\<close>

text \<open>
  Claim C7, as stated, fails: the title is built from \<^verbatim>\<open>name.split('.')[0]\<close>, the part
  of the file name before its first dot, not from the name without its final extension.
  For the file name q3.report.csv the stem is q3.report, the title is "KPI Summary - q3",
  and the stem does not occur in it.
\<close>

theorem stem_counterexample:
  "download_filename_prefix ''q3.report.csv'' = ''q3''
   \<and> spec_filename_stem ''q3.report.csv'' = ''q3.report''
   \<and> html_title (download_filename_prefix ''q3.report.csv'') = ''KPI Summary - q3''
   \<and> \<not> str_contains (html_title (download_filename_prefix ''q3.report.csv''))
          (spec_filename_stem ''q3.report.csv'')"
  by code_simp

text \<open>
  Claim C7, amended. For every source file name, the HTML branch yields a link
  \<^verbatim>\<open>data:text/html;base64,\<close> followed by the Base64 encoding of a page, so the MIME
  type is text/html and the payload decodes to the page. The page is a fixed template
  around two holes: its title element is "KPI Summary - " followed by the part of the
  file name before its first dot, and its body holds the rendered narrative. That part of
  the name is the stem when the name has no dot or exactly one. Whenever the orchestration
  returns a link for the output format \<^verbatim>\<open>html\<close>, the link is the one of the page built
  from the rendering of the summary text it returns.
\<close>

theorem html_artifact_title:
  "html_download_link p h = ''data:text/html;base64,'' @ b64encode (html_content p h)
   \<and> b64decode (drop (length ''data:text/html;base64,'') (html_download_link p h)) =
       Some (html_content p h)
   \<and> (\<exists>pre mid post. \<forall>q k.
         html_content q k = pre @ ''<title>KPI Summary - '' @ q @ ''</title>'' @ mid @ k @ post)
   \<and> download_filename_prefix name = takeWhile (\<lambda>c. c \<noteq> CHR ''.'') name
   \<and> (CHR ''.'' \<notin> set name \<longrightarrow>
        download_filename_prefix name = name \<and> spec_filename_stem name = name)
   \<and> (CHR ''.'' \<notin> set stem \<and> CHR ''.'' \<notin> set ext \<longrightarrow>
        download_filename_prefix (stem @ ''.'' @ ext) = stem \<and>
        spec_filename_stem (stem @ ''.'' @ ext) = stem)
   \<and> (generate_report_and_insights g l (Some f) ''html'' = (t, Some link, ok, err, df) \<longrightarrow>
        (\<exists>k. markdown_render l t = Inr k \<and>
              link = html_download_link (download_filename_prefix (file_name f)) k)
        \<and> ok \<and> err = None)"
proof (intro conjI impI)
  show l: "html_download_link p h = ''data:text/html;base64,'' @ b64encode (html_content p h)"
    by (simp add: html_download_link_def encode_utf8_def)
  show "b64decode (drop (length ''data:text/html;base64,'') (html_download_link p h)) =
       Some (html_content p h)"
    by (simp add: l b64_roundtrip)
  show "\<exists>pre mid post. \<forall>q k.
         html_content q k = pre @ ''<title>KPI Summary - '' @ q @ ''</title>'' @ mid @ k @ post"
    by (rule html_content_template)
  show "download_filename_prefix name = takeWhile (\<lambda>c. c \<noteq> CHR ''.'') name"
    by (simp add: download_filename_prefix_def hd_split_on)
next
  assume "CHR ''.'' \<notin> set name"
  then show "download_filename_prefix name = name" and "spec_filename_stem name = name"
    by (simp_all add: download_filename_prefix_def split_on_no_sep spec_filename_stem_def)
next
  assume "CHR ''.'' \<notin> set stem \<and> CHR ''.'' \<notin> set ext"
  then show "download_filename_prefix (stem @ ''.'' @ ext) = stem"
    and "spec_filename_stem (stem @ ''.'' @ ext) = stem"
    using prefix_is_stem_one_dot [of stem ext] by simp_all
next
  assume "generate_report_and_insights g l (Some f) ''html'' = (t, Some link, ok, err, df)"
  from generate_report_link [OF this] obtain dfo where
    "package_report l f ''html'' t dfo = Inr (t, Some link, ok, err, df)" by auto
  from package_report_link [OF this]
  show "\<exists>k. markdown_render l t = Inr k \<and>
              link = html_download_link (download_filename_prefix (file_name f)) k"
    and "ok" and "err = None"
    by simp_all
qed

theorem html_artifact_title_witness:
  "generate_report_and_insights sample_genai sample_libs (Some sample_file) ''html'' =
     (''Revenue grew.'', Some (html_download_link ''report'' ''<p>Revenue grew.</p>''), True, None,
      Some sample_table)
   \<and> markdown_render sample_libs ''Revenue grew.'' = Inr ''<p>Revenue grew.</p>''
   \<and> download_filename_prefix ''report.csv'' = ''report''
   \<and> spec_filename_stem ''report.csv'' = ''report''"
  using html_artifact_title
    [of "''report''" "''<p>Revenue grew.</p>''" "''report.csv''" "''report''" "''csv''"
        sample_genai sample_libs sample_file "''Revenue grew.''"
        "html_download_link ''report'' ''<p>Revenue grew.</p>''" True None "Some sample_table"]
    generate_report_sample_html
  by (simp add: sample_libs_def)

subsection \<open>The statistics of the column 1, 2, 3, 4, 5\<close>

lemma sort_five: "sort [1, 2, 3, 4, 5 :: real] = [1, 2, 3, 4, 5]"
  by simp

lemma non_missing_five:
  "non_missing [Some 1, Some 2, Some 3, Some 4, Some (5 :: real)] = [1, 2, 3, 4, 5]"
  by (simp add: non_missing_def List.map_filter_simps)

lemma quantile_five:
  "stat_quantile (1 / 4) [1, 2, 3, 4, 5] = Some 2"
  "stat_quantile (1 / 2) [1, 2, 3, 4, 5] = Some 3"
  "stat_quantile (3 / 4) [1, 2, 3, 4, 5] = Some 4"
  by (simp_all add: stat_quantile_def sort_five Let_def)

lemma std_five: "stat_std [1, 2, 3, 4, 5] = Some (sqrt (5 / 2))"
  by (simp add: stat_std_def Let_def power2_eq_square)

lemma describe_column_five:
  "describe_column [Some 1, Some 2, Some 3, Some 4, Some 5] =
     [Some 5, Some 3, Some (sqrt (5 / 2)), Some 1, Some 2, Some 3, Some 4, Some 5]"
  by (simp add: describe_column_def non_missing_five quantile_five std_five stat_count_def
      stat_mean_def stat_min_def stat_max_def)

lemma sqrt_five_halves: "\<bar>sqrt (5 / 2) - 15811 / 10000\<bar> < 1 / 10000"
proof -
  have "(1581 / 1000 :: real) < sqrt (5 / 2)"
    by (rule real_less_rsqrt) (simp add: power2_eq_square)
  moreover have "sqrt (5 / 2) < (15812 / 10000 :: real)"
    by (rule real_less_lsqrt) (simp_all add: power2_eq_square)
  ultimately show ?thesis by linarith
qed

lemma digest_row:
  assumes "i < length cs" and "cs ! i = (name, c)"
  shows "frame_index (transpose_frame (describe (df\<lparr>columns := cs\<rparr>))) ! i = name"
    and "map (\<lambda>(stat, vs). (stat, vs ! i))
           (frame_columns (transpose_frame (describe (df\<lparr>columns := cs\<rparr>)))) =
         map (\<lambda>(j, stat). (stat, describe_column (numeric_values c) ! j)) (enumerate 0 stat_names)"
  using assms by (simp_all add: transpose_frame_def describe_def split_def)

lemma digest_shape:
  "frame_index (transpose_frame (describe df)) = map fst (columns df)"
  "map fst (frame_columns (transpose_frame (describe df))) = stat_names"
  by (simp_all add: transpose_frame_def describe_def split_def comp_def map_snd_enumerate)

lemma summarize_table_numeric:
  "\<not> table_empty df \<Longrightarrow> \<not> table_empty (select_dtypes_number df) \<Longrightarrow>
   summarize_table l df =
     and_then (to_markdown l (transpose_frame (describe (select_dtypes_number df))))
       (\<lambda>md. Inr (Some df, Some md, None))"
  by (simp add: summarize_table_def Let_def)

text \<open>
  Claim C3. For every table that is not empty and has a numeric column with the values
  1, 2, 3, 4, 5, the digest text is the serialization of a frame that has a row for that
  column, and the row reads count 5, mean 3, std \<open>sqrt (5 / 2)\<close>, min 1, 25\% 2, 50\% 3,
  75\% 4, max 5; the standard deviation differs from 1.5811 by less than 0.0001. The
  statistics are those of \<open>describe\<close> above, in real arithmetic.
\<close>

theorem digest_of_one_to_five:
  "(name, NumericCol [Some 1, Some 2, Some 3, Some 4, Some 5]) \<in> set (columns df) \<Longrightarrow>
   \<not> table_empty df \<Longrightarrow>
   (let D = transpose_frame (describe (select_dtypes_number df)) in
      summarize_table l df = and_then (to_markdown l D) (\<lambda>md. Inr (Some df, Some md, None))
      \<and> (\<exists>i < length (frame_index D).
            frame_index D ! i = name \<and>
            map (\<lambda>(stat, vs). (stat, vs ! i)) (frame_columns D) =
              [(''count'', Some 5), (''mean'', Some 3), (''std'', Some (sqrt (5 / 2))),
               (''min'', Some 1), (''25%'', Some 2), (''50%'', Some 3), (''75%'', Some 4),
               (''max'', Some 5)])
      \<and> \<bar>sqrt (5 / 2) - 15811 / 10000\<bar> < 1 / 10000)"
proof -
  let ?c = "NumericCol [Some 1, Some 2, Some 3, Some 4, Some 5]"
  let ?cs = "filter (\<lambda>(n, c). is_numeric c) (columns df)"
  assume mem: "(name, ?c) \<in> set (columns df)" and ne: "\<not> table_empty df"
  from mem have "(name, ?c) \<in> set ?cs" by simp
  then obtain i where i: "i < length ?cs" "?cs ! i = (name, ?c)"
    unfolding in_set_conv_nth by blast
  have sel: "select_dtypes_number df = df\<lparr>columns := ?cs\<rparr>"
    by (simp add: select_dtypes_number_def)
  from i(1) have "?cs \<noteq> []" by auto
  with ne have ne': "\<not> table_empty (select_dtypes_number df)"
    by (simp add: table_empty_def sel)
  have len: "length (frame_index (transpose_frame (describe (select_dtypes_number df)))) = length ?cs"
    by (simp add: digest_shape sel)
  have row: "map (\<lambda>(j, stat). (stat, describe_column (numeric_values ?c) ! j)) (enumerate 0 stat_names) =
      [(''count'', Some 5), (''mean'', Some 3), (''std'', Some (sqrt (5 / 2))),
       (''min'', Some 1), (''25%'', Some 2), (''50%'', Some 3), (''75%'', Some 4),
       (''max'', Some 5)]"
    by (simp add: describe_column_five stat_names_def)
  show ?thesis
    unfolding Let_def
  proof (intro conjI)
    show "summarize_table l df =
        and_then (to_markdown l (transpose_frame (describe (select_dtypes_number df))))
          (\<lambda>md. Inr (Some df, Some md, None))"
      using ne ne' by (rule summarize_table_numeric)
    show "\<exists>i < length (frame_index (transpose_frame (describe (select_dtypes_number df)))).
            frame_index (transpose_frame (describe (select_dtypes_number df))) ! i = name \<and>
            map (\<lambda>(stat, vs). (stat, vs ! i))
              (frame_columns (transpose_frame (describe (select_dtypes_number df)))) =
              [(''count'', Some 5), (''mean'', Some 3), (''std'', Some (sqrt (5 / 2))),
               (''min'', Some 1), (''25%'', Some 2), (''50%'', Some 3), (''75%'', Some 4),
               (''max'', Some 5)]"
      using i len digest_row [OF i, of df] row unfolding sel by auto
    show "\<bar>sqrt (5 / 2) - 15811 / 10000\<bar> < 1 / 10000"
      by (rule sqrt_five_halves)
  qed
qed

theorem digest_of_one_to_five_witness:
  "(''revenue'', NumericCol [Some 1, Some 2, Some 3, Some 4, Some 5]) \<in> set (columns sample_table)
   \<and> \<not> table_empty sample_table
   \<and> (let D = transpose_frame (describe (select_dtypes_number sample_table)) in
      summarize_table sample_libs sample_table =
        and_then (to_markdown sample_libs D) (\<lambda>md. Inr (Some sample_table, Some md, None))
      \<and> (\<exists>i < length (frame_index D).
            frame_index D ! i = ''revenue'' \<and>
            map (\<lambda>(stat, vs). (stat, vs ! i)) (frame_columns D) =
              [(''count'', Some 5), (''mean'', Some 3), (''std'', Some (sqrt (5 / 2))),
               (''min'', Some 1), (''25%'', Some 2), (''50%'', Some 3), (''75%'', Some 4),
               (''max'', Some 5)])
      \<and> \<bar>sqrt (5 / 2) - 15811 / 10000\<bar> < 1 / 10000)"
proof -
  have m: "(''revenue'', NumericCol [Some 1, Some 2, Some 3, Some 4, Some 5]) \<in> set (columns sample_table)"
    by (simp add: sample_table_def)
  have n: "\<not> table_empty sample_table"
    by (simp add: table_empty_def sample_table_def)
  from digest_of_one_to_five [OF m n, of sample_libs] m n show ?thesis
    by blast
qed

subsection \<open>A table without numeric columns\<close>

text \<open>
  Claim C4. For every table that is not empty and has no numeric column, the digest
  builder returns the table, the sentence "No numerical data found for statistical
  summary." in place of a statistics table, and no error message; so does the whole
  ingestion when the parser of the file's format returned that table. The serializer is
  not consulted: the result is the same for every library.
\<close>

theorem no_numeric_column_gives_sentinel:
  "\<not> table_empty df \<Longrightarrow>
   \<forall>(n, c) \<in> set (columns df). \<not> is_numeric c \<Longrightarrow>
   summarize_table l df =
     Inr (Some df, Some ''No numerical data found for statistical summary.'', None)
   \<and> (file_extension (file_name f) = ''csv'' \<and> decode_utf8 l (file_content f) = Inr txt \<and>
        read_csv l txt = Inr df \<longrightarrow>
        ingest_and_summarize_kpis l f =
          (Some df, Some ''No numerical data found for statistical summary.'', None))
   \<and> ((file_extension (file_name f) = ''xls'' \<or> file_extension (file_name f) = ''xlsx'') \<and>
        read_excel l (file_content f) = Inr df \<longrightarrow>
        ingest_and_summarize_kpis l f =
          (Some df, Some ''No numerical data found for statistical summary.'', None))
   \<and> (file_extension (file_name f) = ''json'' \<and> decode_utf8 l (file_content f) = Inr txt \<and>
        read_json l txt = Inr df \<longrightarrow>
        ingest_and_summarize_kpis l f =
          (Some df, Some ''No numerical data found for statistical summary.'', None))"
proof -
  assume ne: "\<not> table_empty df" and nn: "\<forall>(n, c) \<in> set (columns df). \<not> is_numeric c"
  from nn have "filter (\<lambda>(n, c). is_numeric c) (columns df) = []"
    by (auto simp add: filter_empty_conv)
  then have "table_empty (select_dtypes_number df)"
    by (simp add: table_empty_def select_dtypes_number_def)
  with ne have s: "summarize_table l df =
      Inr (Some df, Some ''No numerical data found for statistical summary.'', None)"
    by (simp add: summarize_table_def Let_def no_numeric_sentinel_def)
  show ?thesis
    using s by (auto simp add: ingest_and_summarize_kpis_def ingest_body_def Let_def)
qed

lemma file_extension_samples:
  "file_extension ''notes.txt'' = ''txt''"
  "file_extension ''REPORT.XLSX'' = ''xlsx''"
  "file_extension ''archive.csv.gz'' = ''gz''"
  "file_extension ''csv'' = ''csv''"
  by code_simp+

theorem no_numeric_column_gives_sentinel_witness:
  "\<not> table_empty text_table
   \<and> list_all (\<lambda>(n, c). \<not> is_numeric c) (columns text_table)
   \<and> ingest_and_summarize_kpis text_libs sample_file =
       (Some text_table, Some ''No numerical data found for statistical summary.'', None)"
proof -
  have ne: "\<not> table_empty text_table"
    by (simp add: table_empty_def text_table_def)
  have nn: "\<forall>(n, c) \<in> set (columns text_table). \<not> is_numeric c"
    by (simp add: text_table_def)
  have "file_extension (file_name sample_file) = ''csv''"
    by (simp add: sample_file_def file_extension_report_csv)
  moreover have "decode_utf8 text_libs (file_content sample_file) = Inr ''month,revenue''"
    by (simp add: text_libs_def sample_libs_def sample_file_def)
  moreover have "read_csv text_libs ''month,revenue'' = Inr text_table"
    by (simp add: text_libs_def)
  ultimately show ?thesis
    using no_numeric_column_gives_sentinel [OF ne nn, of text_libs sample_file "''month,revenue''"] ne nn
    by (simp add: list_all_iff)
qed

subsection \<open>The dispatch on the file extension\<close>

text \<open>
  Claim C5. The extension is the lower-cased last piece of the name split at its dots:
  what follows the last dot, or the whole name when it has no dot. When it is none of
  csv, xls, xlsx, json, the ingestion returns no table, no digest and the message
  "Unsupported file type. ...", and the orchestration reports a data ingestion error
  without a table. When it is csv, the result is that of the CSV parser on the decoded
  content, followed by the digest builder; when it is xls or xlsx, that of the
  spreadsheet parser on the bytes; when it is json, that of the JSON parser on the decoded
  content; an exception of the decoder, the parser or the builder becomes the message
  "Error ingesting or processing file: ...".
\<close>

theorem format_dispatch:
  "(file_extension (file_name f) \<notin> {''csv'', ''xls'', ''xlsx'', ''json''} \<longrightarrow>
      ingest_and_summarize_kpis l f =
        (None, None,
         Some ''Unsupported file type. Please upload a CSV, Excel (.xls, .xlsx), or JSON file.'')
      \<and> generate_report_and_insights g l (Some f) fmt =
        ([], None, False,
         Some ''Data Ingestion Error: Unsupported file type. Please upload a CSV, Excel (.xls, .xlsx), or JSON file.'',
         None))
   \<and> (file_extension (file_name f) = ''csv'' \<longrightarrow>
        ingest_and_summarize_kpis l f =
          (case and_then (and_then (decode_utf8 l (file_content f)) (read_csv l)) (summarize_table l) of
             Inl e \<Rightarrow> (None, None, Some (''Error ingesting or processing file: '' @ exc_str e))
           | Inr r \<Rightarrow> r))
   \<and> (file_extension (file_name f) = ''xls'' \<or> file_extension (file_name f) = ''xlsx'' \<longrightarrow>
        ingest_and_summarize_kpis l f =
          (case and_then (read_excel l (file_content f)) (summarize_table l) of
             Inl e \<Rightarrow> (None, None, Some (''Error ingesting or processing file: '' @ exc_str e))
           | Inr r \<Rightarrow> r))
   \<and> (file_extension (file_name f) = ''json'' \<longrightarrow>
        ingest_and_summarize_kpis l f =
          (case and_then (and_then (decode_utf8 l (file_content f)) (read_json l)) (summarize_table l) of
             Inl e \<Rightarrow> (None, None, Some (''Error ingesting or processing file: '' @ exc_str e))
           | Inr r \<Rightarrow> r))
   \<and> (CHR ''.'' \<notin> set suffix \<longrightarrow> file_extension (stem @ ''.'' @ suffix) = lower suffix)
   \<and> (CHR ''.'' \<notin> set name \<longrightarrow> file_extension name = lower name)"
proof (intro conjI impI)
  assume u: "file_extension (file_name f) \<notin> {''csv'', ''xls'', ''xlsx'', ''json''}"
  then show i: "ingest_and_summarize_kpis l f =
        (None, None,
         Some ''Unsupported file type. Please upload a CSV, Excel (.xls, .xlsx), or JSON file.'')"
    by (simp add: ingest_and_summarize_kpis_def ingest_body_def Let_def unsupported_file_type_def)
  show "generate_report_and_insights g l (Some f) fmt =
        ([], None, False,
         Some ''Data Ingestion Error: Unsupported file type. Please upload a CSV, Excel (.xls, .xlsx), or JSON file.'',
         None)"
    by (simp add: generate_report_and_insights_def i report_body_def)
next
  assume "file_extension (file_name f) = ''csv''"
  then show "ingest_and_summarize_kpis l f =
          (case and_then (and_then (decode_utf8 l (file_content f)) (read_csv l)) (summarize_table l) of
             Inl e \<Rightarrow> (None, None, Some (''Error ingesting or processing file: '' @ exc_str e))
           | Inr r \<Rightarrow> r)"
    by (simp add: ingest_and_summarize_kpis_def ingest_body_def Let_def)
next
  assume "file_extension (file_name f) = ''xls'' \<or> file_extension (file_name f) = ''xlsx''"
  then show "ingest_and_summarize_kpis l f =
          (case and_then (read_excel l (file_content f)) (summarize_table l) of
             Inl e \<Rightarrow> (None, None, Some (''Error ingesting or processing file: '' @ exc_str e))
           | Inr r \<Rightarrow> r)"
    by (auto simp add: ingest_and_summarize_kpis_def ingest_body_def Let_def)
next
  assume "file_extension (file_name f) = ''json''"
  then show "ingest_and_summarize_kpis l f =
          (case and_then (and_then (decode_utf8 l (file_content f)) (read_json l)) (summarize_table l) of
             Inl e \<Rightarrow> (None, None, Some (''Error ingesting or processing file: '' @ exc_str e))
           | Inr r \<Rightarrow> r)"
    by (simp add: ingest_and_summarize_kpis_def ingest_body_def Let_def)
next
  assume "CHR ''.'' \<notin> set suffix"
  then show "file_extension (stem @ ''.'' @ suffix) = lower suffix"
    by (rule file_extension_after_last_dot)
next
  assume "CHR ''.'' \<notin> set name"
  then show "file_extension name = lower name"
    by (rule file_extension_no_dot)
qed

theorem format_dispatch_witness:
  "ingest_and_summarize_kpis sample_libs \<lparr>file_name = ''notes.txt'', file_content = ''hello''\<rparr> =
     (None, None,
      Some ''Unsupported file type. Please upload a CSV, Excel (.xls, .xlsx), or JSON file.'')
   \<and> ingest_and_summarize_kpis sample_libs \<lparr>file_name = ''archive.csv.gz'', file_content = ''a,b''\<rparr> =
     (None, None,
      Some ''Unsupported file type. Please upload a CSV, Excel (.xls, .xlsx), or JSON file.'')
   \<and> ingest_and_summarize_kpis sample_libs sample_file =
     (Some sample_table, Some ''| revenue |'', None)
   \<and> ingest_and_summarize_kpis sample_libs \<lparr>file_name = ''REPORT.XLSX'', file_content = ''PK''\<rparr> =
     (None, None, Some ''Error ingesting or processing file: File is not a zip file'')
   \<and> ingest_and_summarize_kpis sample_libs \<lparr>file_name = ''data.json'', file_content = ''{''\<rparr> =
     (None, None, Some ''Error ingesting or processing file: Expected object or value'')"
proof (intro conjI)
  let ?f1 = "\<lparr>file_name = ''notes.txt'', file_content = ''hello''\<rparr>"
  show "ingest_and_summarize_kpis sample_libs ?f1 =
     (None, None,
      Some ''Unsupported file type. Please upload a CSV, Excel (.xls, .xlsx), or JSON file.'')"
    using format_dispatch [of ?f1 sample_libs] by (simp add: file_extension_samples)
  let ?f2 = "\<lparr>file_name = ''archive.csv.gz'', file_content = ''a,b''\<rparr>"
  show "ingest_and_summarize_kpis sample_libs ?f2 =
     (None, None,
      Some ''Unsupported file type. Please upload a CSV, Excel (.xls, .xlsx), or JSON file.'')"
    using format_dispatch [of ?f2 sample_libs] by (simp add: file_extension_samples)
  have e: "file_extension (file_name sample_file) = ''csv''"
    by (simp add: sample_file_def file_extension_report_csv)
  have "decode_utf8 sample_libs (file_content sample_file) = Inr (file_content sample_file)"
    and "read_csv sample_libs (file_content sample_file) = Inr sample_table"
    by (simp_all add: sample_libs_def)
  then have d: "and_then (and_then (decode_utf8 sample_libs (file_content sample_file))
        (read_csv sample_libs)) (summarize_table sample_libs) =
      Inr (Some sample_table, Some ''| revenue |'', None)"
    by (simp add: summarize_sample_table)
  show "ingest_and_summarize_kpis sample_libs sample_file =
     (Some sample_table, Some ''| revenue |'', None)"
    using format_dispatch [of sample_file sample_libs] e d by simp
  let ?f4 = "\<lparr>file_name = ''REPORT.XLSX'', file_content = ''PK''\<rparr>"
  show "ingest_and_summarize_kpis sample_libs ?f4 =
     (None, None, Some ''Error ingesting or processing file: File is not a zip file'')"
    using format_dispatch [of ?f4 sample_libs]
    by (simp add: file_extension_samples sample_libs_def)
  let ?f5 = "\<lparr>file_name = ''data.json'', file_content = ''{''\<rparr>"
  have "file_extension ''data.json'' = ''json''" by code_simp
  then show "ingest_and_summarize_kpis sample_libs ?f5 =
     (None, None, Some ''Error ingesting or processing file: Expected object or value'')"
    using format_dispatch [of ?f5 sample_libs]
    by (simp add: sample_libs_def)
qed

end
